theory Spec2Isabelle
  imports Main "HOL-Library.Sublist"
begin

section \<open>The concept repository as the search function sees it\<close>

text \<open>
  \<^verbatim>\<open>snomed_browser\<close> (examples/snomed\_browser.ipynb) sends one GET request to the
  Snowstorm service and reads the \<^verbatim>\<open>items\<close> of the JSON body. Of each item the function
  reads only \<^verbatim>\<open>x["fsn"]["term"]\<close>; the concept identifier is what the service keys
  an item by. Strings are lists of characters, and \<open>length\<close> is Python's \<^verbatim>\<open>len\<close>.
\<close>

record concept =
  conceptId :: string
  fsn_term :: string

record request =
  url :: string
  params :: "(string \<times> string) list"

text \<open>
  What \<^verbatim>\<open>client.get(url, params=params)\<close> can come back with: no response at all (the
  service is unreachable), or a response with a status code and a body. The function never
  checks the body, so the body is modelled by its shapes, one for each way the function's
  next lines fare on it:
  \<^item> \<open>No_JSON\<close>: the body is empty or is no JSON text (a 204 answer has none), and
    \<^verbatim>\<open>response.json()\<close> raises \<^verbatim>\<open>JSONDecodeError\<close>;
  \<^item> \<open>Not_an_object\<close>: the JSON value is a list, a string, a number or null, and
    \<^verbatim>\<open>.get("items", [])\<close> raises \<^verbatim>\<open>AttributeError\<close>;
  \<^item> \<open>Object None\<close>: a JSON object without the key \<^verbatim>\<open>items\<close>, for which
    \<^verbatim>\<open>.get\<close> gives the default \<^verbatim>\<open>[]\<close>;
  \<^item> \<open>Object (Some v)\<close>: a JSON object whose \<^verbatim>\<open>items\<close> is \<open>v\<close>.

  The value of \<^verbatim>\<open>items\<close> is a sequence of items, or a value that the list comprehension
  cannot iterate (null, a number), which raises \<^verbatim>\<open>TypeError\<close>. (A JSON string or
  object is iterated too, into its characters or keys: items of the last kind.) An item is a concept
  record with \<^verbatim>\<open>fsn.term\<close>, or an object that lacks \<^verbatim>\<open>fsn\<close> or its
  \<^verbatim>\<open>term\<close> (the sort key raises \<^verbatim>\<open>KeyError\<close>), or a value that is no such object
  at all (the sort key raises \<^verbatim>\<open>TypeError\<close>).
\<close>

datatype item =
    Concept concept
  | No_fsn_term
  | Not_a_record

datatype items_value =
    Items "item list"
  | Not_iterable

datatype body =
    No_JSON
  | Not_an_object
  | Object "items_value option"

datatype http_outcome =
    Unreachable
  | Response nat body

type_synonym service = "request \<Rightarrow> http_outcome"

text \<open>
  The exceptions that reach a caller. \<open>ConnectError\<close> and \<open>HTTPStatusError\<close> are the
  HTTP client's: the first stands for the transport errors that \<^verbatim>\<open>client.get\<close> raises
  when no response arrives, the second is raised by \<^verbatim>\<open>response.raise_for_status()\<close>
  and carries the status code. The next four are raised by the lines that read the body.
  \<open>IOError\<close> is the storage sink's.
\<close>

datatype error =
    ConnectError
  | HTTPStatusError nat
  | JSONDecodeError
  | AttributeError
  | TypeError
  | KeyError
  | IOError

text \<open>
  Python's \<^verbatim>\<open>isinstance(e, LookupError)\<close>. The builtin \<^verbatim>\<open>LookupError\<close> is the base class
  of \<^verbatim>\<open>KeyError\<close> and \<^verbatim>\<open>IndexError\<close>. The HTTP client's exceptions derive from its own
  \<^verbatim>\<open>HTTPError\<close>, \<^verbatim>\<open>JSONDecodeError\<close> from \<^verbatim>\<open>ValueError\<close>, \<^verbatim>\<open>IOError\<close> is
  \<^verbatim>\<open>OSError\<close>; none of them is a \<^verbatim>\<open>LookupError\<close>.
\<close>

fun isinstance_LookupError :: "error \<Rightarrow> bool" where
  "isinstance_LookupError KeyError = True"
| "isinstance_LookupError e = False"

text \<open>\<^verbatim>\<open>Response.is_success\<close> of the HTTP client: the 2xx codes.\<close>

definition is_success :: "nat \<Rightarrow> bool" where
  "is_success status = (200 \<le> status \<and> status \<le> 299)"

text \<open>
  Python's \<^verbatim>\<open>xs[:limit]\<close>: the first \<open>limit\<close> elements, and for a negative \<open>limit\<close>
  all but the last \<open>- limit\<close>.
\<close>

definition slice_upto :: "int \<Rightarrow> 'a list \<Rightarrow> 'a list" where
  "slice_upto limit xs =
     (if 0 \<le> limit then take (nat limit) xs
      else take (nat (int (length xs) + limit)) xs)"

section \<open>snomed\_browser\<close>

text \<open>
  The f-string \<^verbatim>\<open>f'< 71388002|Procedure| {{{{ term = ("{term}") }}}}'\<close>: each doubled
  brace of the source is one brace of the text, and the term is pasted between the quotes
  as it is. \<open>search_request\<close> is the \<^verbatim>\<open>url\<close> and the \<^verbatim>\<open>params\<close> that the first
  lines of \<^verbatim>\<open>snomed_browser\<close> compute.
\<close>

definition ecl_root :: string where
  "ecl_root = ''< 71388002|Procedure|''"

definition ecl :: "string \<Rightarrow> string" where
  "ecl t = ecl_root @ '' {{ term = ('' @ [CHR 0x22] @ t @ [CHR 0x22] @ '') }}''"

definition search_request :: "string \<Rightarrow> request" where
  "search_request t =
     (let base_url = ''http://snowstorm:8080'';
          edition = ''MAIN''
      in \<lparr> url = base_url @ ''/'' @ edition @ ''/concepts'',
           params = [(''activeFilter'', ''true''),
                     (''termActive'', ''true''),
                     (''ecl'', ecl t)] \<rparr>)"

text \<open>
  \<^verbatim>\<open>response.json().get("items", [])\<close>, the list comprehension (whose filter is
  commented out, so that it keeps every item it can iterate), and the sort key
  \<^verbatim>\<open>len(x["fsn"]["term"])\<close>, which \<^verbatim>\<open>sorted\<close> evaluates on every item in the list's
  order before it compares any: the first item on which the key raises decides the exception.
\<close>

fun json_get_items :: "body \<Rightarrow> error + items_value" where
  "json_get_items No_JSON = Inl JSONDecodeError"
| "json_get_items Not_an_object = Inl AttributeError"
| "json_get_items (Object None) = Inr (Items [])"
| "json_get_items (Object (Some v)) = Inr v"

fun iterate :: "items_value \<Rightarrow> error + item list" where
  "iterate (Items xs) = Inr xs"
| "iterate Not_iterable = Inl TypeError"

fun fsn_terms :: "item list \<Rightarrow> error + concept list" where
  "fsn_terms [] = Inr []"
| "fsn_terms (Concept c # xs) =
     (case fsn_terms xs of Inl e \<Rightarrow> Inl e | Inr cs \<Rightarrow> Inr (c # cs))"
| "fsn_terms (No_fsn_term # xs) = Inl KeyError"
| "fsn_terms (Not_a_record # xs) = Inl TypeError"

definition sorted_by_fsn_term :: "item list \<Rightarrow> error + concept list" where
  "sorted_by_fsn_term xs =
     (case fsn_terms xs of
        Inl e \<Rightarrow> Inl e
      | Inr cs \<Rightarrow> Inr (sort_key (\<lambda>x. length (fsn_term x)) cs))"

text \<open>
  The function returns its result (or the exception it lets through: it has no
  \<^verbatim>\<open>try\<close>) and the requests it sent. \<open>semanticTag\<close> is a parameter of the source that
  its body never reads. \<^verbatim>\<open>sorted\<close> is stable, as \<open>sort_key\<close> is. The
  \<^verbatim>\<open>print(params)\<close> of the source is not modelled.
\<close>

definition snomed_browser ::
  "service \<Rightarrow> string \<Rightarrow> int \<Rightarrow> string \<Rightarrow> (error + concept list) \<times> request list" where
  "snomed_browser svc t limit semanticTag =
     (let req = search_request t in
      (case svc req of
         Unreachable \<Rightarrow> Inl ConnectError
       | Response status body \<Rightarrow>
           if \<not> is_success status then Inl (HTTPStatusError status)
           else
             (case json_get_items body of
                Inl e \<Rightarrow> Inl e
              | Inr items \<Rightarrow>
                  (case iterate items of
                     Inl e \<Rightarrow> Inl e
                   | Inr filtered_matches \<Rightarrow>
                       (case sorted_by_fsn_term filtered_matches of
                          Inl e \<Rightarrow> Inl e
                        | Inr filtered_matches \<Rightarrow> Inr (slice_upto limit filtered_matches)))),
       [req]))"

text \<open>
  Services for concrete runs: one answers every request with two matches, one with status
  500, one cannot be reached, one answers 204 with no body, one answers 200 with an item
  that has no \<^verbatim>\<open>fsn\<close>.
\<close>

definition eeg_matches :: "concept list" where
  "eeg_matches =
     [\<lparr> conceptId = ''252736004'', fsn_term = ''Ambulatory electroencephalogram (procedure)'' \<rparr>,
      \<lparr> conceptId = ''54550000'', fsn_term = ''Electroencephalogram (procedure)'' \<rparr>]"

definition eeg_service :: service where
  "eeg_service req = Response 200 (Object (Some (Items (map Concept eeg_matches))))"

definition failing_service :: service where
  "failing_service req = Response 500 No_JSON"

definition offline_service :: service where
  "offline_service req = Unreachable"

definition no_content_service :: service where
  "no_content_service req = Response 204 No_JSON"

definition incomplete_service :: service where
  "incomplete_service req = Response 200 (Object (Some (Items [No_fsn_term])))"

text \<open>
  What a 2xx answer must be for every line of the function to pass: a JSON object whose
  \<^verbatim>\<open>items\<close>, if the key is there, is a list of concept records.
\<close>

fun is_concept :: "item \<Rightarrow> bool" where
  "is_concept (Concept c) = True"
| "is_concept x = False"

fun well_formed :: "body \<Rightarrow> bool" where
  "well_formed (Object None) = True"
| "well_formed (Object (Some (Items xs))) = list_all is_concept xs"
| "well_formed b = False"







section \<open>The terminology tool: searching the variants, merging, ranking\<close>

text \<open>
  Modelled from the spec: \<^verbatim>\<open>SNOMEDTool.forward\<close> of \<^verbatim>\<open>medminer.tools.procedure\<close>, which
  the notebook imports and calls but whose code is not among the sources. Section 4.5 of
  the specification, steps 2 to 4: for each query variant one search request with the
  active-concepts filter; the variants' results merged and deduplicated by concept
  identifier, the first occurrence kept; the merged list ranked by ascending length of the
  canonical display term and cut to the limit. A request that fails ends the search with
  its error; an answer is read as \<open>snomed_browser\<close> reads it. Step 1, which builds the variants from the term, the synonyms and the
  abbreviations, is not modelled: the variants are an argument.
\<close>

definition search_variant :: "service \<Rightarrow> string \<Rightarrow> (error + concept list) \<times> request list" where
  "search_variant svc v =
     (let req = search_request v in
      (case svc req of
         Unreachable \<Rightarrow> Inl ConnectError
       | Response status body \<Rightarrow>
           if \<not> is_success status then Inl (HTTPStatusError status)
           else
             (case json_get_items body of
                Inl e \<Rightarrow> Inl e
              | Inr items \<Rightarrow>
                  (case iterate items of Inl e \<Rightarrow> Inl e | Inr xs \<Rightarrow> fsn_terms xs)),
       [req]))"

fun search_variants :: "service \<Rightarrow> string list \<Rightarrow> (error + concept list list) \<times> request list" where
  "search_variants svc [] = (Inr [], [])"
| "search_variants svc (v # vs) =
     (case search_variant svc v of
        (Inl e, sent) \<Rightarrow> (Inl e, sent)
      | (Inr ms, sent) \<Rightarrow>
          (case search_variants svc vs of
             (Inl e, sent') \<Rightarrow> (Inl e, sent @ sent')
           | (Inr mss, sent') \<Rightarrow> (Inr (ms # mss), sent @ sent')))"

text \<open>The merge walks the results in order and keeps a match unless its identifier was seen.\<close>

fun merge_matches :: "string list \<Rightarrow> concept list \<Rightarrow> concept list" where
  "merge_matches seen [] = []"
| "merge_matches seen (m # ms) =
     (if conceptId m \<in> set seen then merge_matches seen ms
      else m # merge_matches (conceptId m # seen) ms)"

definition forward_variants ::
  "service \<Rightarrow> string list \<Rightarrow> nat \<Rightarrow> (error + concept list) \<times> request list" where
  "forward_variants svc variants limit =
     (case search_variants svc variants of
        (Inl e, sent) \<Rightarrow> (Inl e, sent)
      | (Inr mss, sent) \<Rightarrow>
          (Inr (take limit
                  (sort_key (\<lambda>m. length (fsn_term m)) (merge_matches [] (concat mss)))),
           sent))"

text \<open>
  A service for a concrete run with two variants: the abbreviation finds two concepts, every
  other expression finds one, which the abbreviation finds too (under a longer name).
\<close>

definition cct_service :: service where
  "cct_service req =
     (if map_of (params req) ''ecl'' = Some (ecl ''cCT'')
      then Response 200 (Object (Some (Items
        [Concept \<lparr> conceptId = ''408754009'', fsn_term = ''Computed tomography of head without contrast (procedure)'' \<rparr>,
         Concept \<lparr> conceptId = ''77477000'', fsn_term = ''CT (procedure)'' \<rparr>])))
      else Response 200 (Object (Some (Items
        [Concept \<lparr> conceptId = ''408754009'', fsn_term = ''Computed tomography of head (procedure)'' \<rparr>]))))"

section \<open>The storage sink\<close>

text \<open>
  Modelled from the spec: the storage sink (\<^verbatim>\<open>DataStorage\<close> of
  \<^verbatim>\<open>medminer.workflows.base.node\<close>), which the sources only describe. Sections 4.3 and 6
  of the specification: given records and an output path the sink appends rows to a tabular
  file; it creates the file with a header row (the field names) if the file does not yet
  exist, else it appends; it is append-only, with no deduplication; it fails with an error
  of kind \<^verbatim>\<open>IOError\<close> if the target cannot be written. Which paths can be written is
  the argument \<open>writable\<close>.
\<close>

datatype row = Header "string list" | Data "string list"

type_synonym files = "string \<rightharpoonup> row list"

definition store ::
  "(string \<Rightarrow> bool) \<Rightarrow> files \<Rightarrow> string \<Rightarrow> string list \<Rightarrow> string list list \<Rightarrow> error + files" where
  "store writable fs path field_names records =
     (if \<not> writable path then Inl IOError
      else Inr (fs(path \<mapsto>
             (case fs path of None \<Rightarrow> [Header field_names] | Some rows \<Rightarrow> rows) @ map Data records)))"

text \<open>A sink that can write everywhere, for concrete runs.\<close>

definition all_writable :: "string \<Rightarrow> bool" where
  "all_writable path = True"

section \<open>Properties of snomed\_browser\<close>

lemma length_slice_upto: "0 \<le> limit \<Longrightarrow> int (length (slice_upto limit xs)) \<le> limit"
  by (simp add: slice_upto_def)

lemma sorted_slice_upto:
  "sorted (map f xs) \<Longrightarrow> sorted (map f (slice_upto limit xs))"
  by (simp add: slice_upto_def flip: take_map)

lemma snomed_browser_Inr:
  "fst (snomed_browser svc t limit tag) = Inr ms \<Longrightarrow>
   \<exists>cs. ms = slice_upto limit (sort_key (\<lambda>x. length (fsn_term x)) cs)"
  by (auto simp: snomed_browser_def sorted_by_fsn_term_def Let_def
      split: http_outcome.splits if_splits sum.splits)

text \<open>
  Claim C1, as the code has it. Whenever \<open>snomed_browser\<close> returns a list, the list is in
  non-decreasing order of the length of each match's fully specified name, and, when the
  limit is not negative, it holds at most \<open>limit\<close> matches. (For a negative limit Python's
  slice drops matches from the end and the bound does not hold; see the counterexample.)
\<close>

theorem snomed_browser_ranked_and_bounded:
  assumes "fst (snomed_browser svc t limit semanticTag) = Inr ms"
  shows "sorted (map (\<lambda>m. length (fsn_term m)) ms)
         \<and> (0 \<le> limit \<longrightarrow> int (length ms) \<le> limit)"
proof -
  from snomed_browser_Inr [OF assms] obtain cs where
    ms: "ms = slice_upto limit (sort_key (\<lambda>x. length (fsn_term x)) cs)"
    by blast
  have "sorted (map (\<lambda>m. length (fsn_term m)) ms)"
    unfolding ms by (rule sorted_slice_upto) simp
  moreover have "0 \<le> limit \<longrightarrow> int (length ms) \<le> limit"
    unfolding ms by (simp add: length_slice_upto)
  ultimately show ?thesis by simp
qed

text \<open>
  A run with limit 1 on a service that answers with two matches: the shorter name is the
  one returned, although the service listed it second.
\<close>

theorem snomed_browser_ranked_and_bounded_witness:
  "fst (snomed_browser eeg_service ''Electroencephalogram'' 1 ''procedure'')
     = Inr [\<lparr> conceptId = ''54550000'', fsn_term = ''Electroencephalogram (procedure)'' \<rparr>]
   \<and> sorted (map (\<lambda>m. length (fsn_term m))
        [\<lparr> conceptId = ''54550000'', fsn_term = ''Electroencephalogram (procedure)'' \<rparr>])
   \<and> 0 \<le> (1::int)
   \<and> int (length
        [\<lparr> conceptId = ''54550000'', fsn_term = ''Electroencephalogram (procedure)'' \<rparr>]) \<le> 1"
proof -
  have run: "fst (snomed_browser eeg_service ''Electroencephalogram'' 1 ''procedure'')
     = Inr [\<lparr> conceptId = ''54550000'', fsn_term = ''Electroencephalogram (procedure)'' \<rparr>]"
    by (simp add: snomed_browser_def eeg_service_def eeg_matches_def is_success_def
        sorted_by_fsn_term_def slice_upto_def Let_def)
  from snomed_browser_ranked_and_bounded [OF run] run show ?thesis by simp
qed

text \<open>
  Claim C1 as stated fails for a negative limit: with \<^verbatim>\<open>limit=-1\<close> the slice
  \<^verbatim>\<open>filtered_matches[:-1]\<close> keeps one of the two matches, and 1 is not at most -1.
\<close>

theorem snomed_browser_negative_limit_counterexample:
  "fst (snomed_browser eeg_service ''Electroencephalogram'' (- 1) ''procedure'')
     = Inr [\<lparr> conceptId = ''54550000'', fsn_term = ''Electroencephalogram (procedure)'' \<rparr>]
   \<and> \<not> int (length
        [\<lparr> conceptId = ''54550000'', fsn_term = ''Electroencephalogram (procedure)'' \<rparr>]) \<le> - 1"
  by (simp add: snomed_browser_def eeg_service_def eeg_matches_def is_success_def
        sorted_by_fsn_term_def slice_upto_def Let_def)

lemma fsn_terms_concepts: "list_all is_concept xs \<Longrightarrow> \<exists>cs. fsn_terms xs = Inr cs"
proof (induction xs)
  case Nil
  show ?case by simp
next
  case (Cons x xs)
  then obtain c where "x = Concept c" by (cases x) auto
  with Cons show ?case by auto
qed

lemma well_formed_passes:
  "well_formed body \<Longrightarrow>
   \<exists>xs cs. json_get_items body = Inr (Items xs) \<and> fsn_terms xs = Inr cs"
proof (induction body rule: well_formed.induct)
  case 1
  show ?case by simp
next
  case (2 xs)
  then show ?case using fsn_terms_concepts [of xs] by simp
qed simp_all

text \<open>
  Claim C4, as the code has it. When the service is unreachable, or answers with a status
  outside 200..299, \<open>snomed_browser\<close> hands the HTTP client's own exception to its caller:
  the transport error, or \<^verbatim>\<open>HTTPStatusError\<close> with the status. On a 2xx answer whose
  body is a JSON object with a list of concept records (or without \<^verbatim>\<open>items\<close>) it
  returns a list.
\<close>

theorem snomed_browser_failure_surfaces:
  "(svc (search_request t) = Unreachable \<longrightarrow>
      fst (snomed_browser svc t limit semanticTag) = Inl ConnectError)
   \<and> (\<forall>status body.
        svc (search_request t) = Response status body \<and> \<not> (200 \<le> status \<and> status \<le> 299) \<longrightarrow>
        fst (snomed_browser svc t limit semanticTag) = Inl (HTTPStatusError status))
   \<and> (\<forall>status body.
        svc (search_request t) = Response status body \<and> 200 \<le> status \<and> status \<le> 299
          \<and> well_formed body \<longrightarrow>
        (\<exists>ms. fst (snomed_browser svc t limit semanticTag) = Inr ms))"
proof (intro conjI allI impI)
  assume "svc (search_request t) = Unreachable"
  then show "fst (snomed_browser svc t limit semanticTag) = Inl ConnectError"
    by (simp add: snomed_browser_def Let_def)
next
  fix status body
  assume "svc (search_request t) = Response status body \<and> \<not> (200 \<le> status \<and> status \<le> 299)"
  then show "fst (snomed_browser svc t limit semanticTag) = Inl (HTTPStatusError status)"
    by (simp add: snomed_browser_def Let_def is_success_def)
next
  fix status body
  assume a: "svc (search_request t) = Response status body \<and> 200 \<le> status \<and> status \<le> 299
    \<and> well_formed body"
  then obtain xs cs where "json_get_items body = Inr (Items xs)" and "fsn_terms xs = Inr cs"
    using well_formed_passes by blast
  with a show "\<exists>ms. fst (snomed_browser svc t limit semanticTag) = Inr ms"
    by (simp add: snomed_browser_def Let_def is_success_def sorted_by_fsn_term_def)
qed

text \<open>The three cases at concrete services: unreachable, status 500, status 200.\<close>

theorem snomed_browser_failure_surfaces_witness:
  "fst (snomed_browser offline_service ''Electroencephalogram'' 100 ''procedure'')
     = Inl ConnectError
   \<and> fst (snomed_browser failing_service ''Electroencephalogram'' 100 ''procedure'')
     = Inl (HTTPStatusError 500)
   \<and> well_formed (Object (Some (Items (map Concept eeg_matches))))
   \<and> (\<exists>ms. fst (snomed_browser eeg_service ''Electroencephalogram'' 100 ''procedure'') = Inr ms)"
  using
    snomed_browser_failure_surfaces [of offline_service "''Electroencephalogram''" 100 "''procedure''"]
    snomed_browser_failure_surfaces [of failing_service "''Electroencephalogram''" 100 "''procedure''"]
    snomed_browser_failure_surfaces [of eeg_service "''Electroencephalogram''" 100 "''procedure''"]
  by (simp add: offline_service_def failing_service_def eeg_service_def eeg_matches_def)

text \<open>
  Claim C4 as stated fails twice. A 2xx answer does not make the function return: on 204
  with no body \<^verbatim>\<open>response.json()\<close> raises \<^verbatim>\<open>JSONDecodeError\<close>, and on 200 with an
  item without \<^verbatim>\<open>fsn\<close> the sort key raises \<^verbatim>\<open>KeyError\<close>. And on status 500 the
  exception that reaches the caller is the client's \<^verbatim>\<open>HTTPStatusError\<close>, which is no
  \<^verbatim>\<open>LookupError\<close>.
\<close>

theorem snomed_browser_2xx_raises_counterexample:
  "no_content_service (search_request ''Electroencephalogram'') = Response 204 No_JSON
   \<and> (200::nat) \<le> 204 \<and> (204::nat) \<le> 299
   \<and> fst (snomed_browser no_content_service ''Electroencephalogram'' 100 ''procedure'')
       = Inl JSONDecodeError
   \<and> fst (snomed_browser incomplete_service ''Electroencephalogram'' 100 ''procedure'')
       = Inl KeyError
   \<and> fst (snomed_browser failing_service ''Electroencephalogram'' 100 ''procedure'')
       = Inl (HTTPStatusError 500)
   \<and> \<not> isinstance_LookupError (HTTPStatusError 500)"
  by (simp add: snomed_browser_def no_content_service_def incomplete_service_def
      failing_service_def is_success_def sorted_by_fsn_term_def Let_def)







section \<open>Properties of the merge\<close>

lemma merge_matches_ids:
  "conceptId ` set (merge_matches seen xs) = conceptId ` set xs - set seen"
  by (induction xs arbitrary: seen) auto

lemma distinct_merge_matches: "distinct (map conceptId (merge_matches seen xs))"
proof (induction xs arbitrary: seen)
  case Nil
  show ?case by simp
next
  case (Cons m ms)
  have "conceptId m \<notin> conceptId ` set (merge_matches (conceptId m # seen) ms)"
    unfolding merge_matches_ids by simp
  with Cons show ?case by simp
qed

lemma merge_matches_first:
  "m \<in> set (merge_matches seen xs) \<Longrightarrow> find (\<lambda>x. conceptId x = conceptId m) xs = Some m"
proof (induction xs arbitrary: seen)
  case Nil
  then show ?case by simp
next
  case (Cons a xs)
  show ?case
  proof (cases "conceptId a \<in> set seen")
    case True
    with Cons.prems have m: "m \<in> set (merge_matches seen xs)" by simp
    then have "conceptId m \<in> conceptId ` set xs - set seen"
      unfolding merge_matches_ids [symmetric] by (rule imageI)
    with True have "conceptId a \<noteq> conceptId m" by auto
    with Cons.IH [OF m] show ?thesis by simp
  next
    case False
    with Cons.prems have "m = a \<or> m \<in> set (merge_matches (conceptId a # seen) xs)" by simp
    then show ?thesis
    proof
      assume "m = a"
      then show ?thesis by simp
    next
      assume m: "m \<in> set (merge_matches (conceptId a # seen) xs)"
      then have "conceptId m \<in> conceptId ` set xs - set (conceptId a # seen)"
        unfolding merge_matches_ids [symmetric] by (rule imageI)
      then have "conceptId a \<noteq> conceptId m" by auto
      with Cons.IH [OF m] show ?thesis by simp
    qed
  qed
qed

lemma distinct_map_sort_key: "distinct (map f (sort_key k xs)) = distinct (map f xs)"
  by (simp add: distinct_map)

text \<open>
  Claim C2, on the model of the specification's steps 2 to 4. When the search over the
  variants succeeds with the result lists \<open>mss\<close> (one per variant, in order), the list that
  \<open>forward_variants\<close> returns holds no concept identifier twice, and each entry of it is the
  first entry with its identifier in the variants' results taken in order: the entry of
  the first variant in which the identifier occurred.
\<close>

theorem forward_no_duplicates_first_wins:
  assumes "search_variants svc variants = (Inr mss, sent)"
    and "fst (forward_variants svc variants limit) = Inr ms"
  shows "distinct (map conceptId ms)
         \<and> (\<forall>m \<in> set ms. find (\<lambda>x. conceptId x = conceptId m) (concat mss) = Some m)"
proof -
  let ?merged = "merge_matches [] (concat mss)"
  from assms have ms: "ms = take limit (sort_key (\<lambda>m. length (fsn_term m)) ?merged)"
    by (simp add: forward_variants_def)
  have "distinct (map conceptId (sort_key (\<lambda>m. length (fsn_term m)) ?merged))"
    by (simp add: distinct_map_sort_key distinct_merge_matches)
  then have "distinct (take limit (map conceptId (sort_key (\<lambda>m. length (fsn_term m)) ?merged)))"
    by (rule distinct_take)
  then have d: "distinct (map conceptId ms)"
    by (simp add: ms take_map)
  have "set ms \<subseteq> set ?merged"
    unfolding ms using set_take_subset [of limit "sort_key (\<lambda>m. length (fsn_term m)) ?merged"]
    by simp
  then have "\<forall>m \<in> set ms. find (\<lambda>x. conceptId x = conceptId m) (concat mss) = Some m"
    using merge_matches_first by blast
  with d show ?thesis by simp
qed

text \<open>
  A run with two variants whose results share concept 408754009 under two names: the name
  kept is the first variant's.
\<close>

theorem forward_no_duplicates_first_wins_witness:
  "fst (forward_variants cct_service [''Computed Cranial Tomography'', ''cCT''] 100)
     = Inr [\<lparr> conceptId = ''77477000'', fsn_term = ''CT (procedure)'' \<rparr>,
            \<lparr> conceptId = ''408754009'', fsn_term = ''Computed tomography of head (procedure)'' \<rparr>]
   \<and> distinct [''77477000'', ''408754009'']
   \<and> find (\<lambda>x. conceptId x = ''408754009'')
        [\<lparr> conceptId = ''408754009'', fsn_term = ''Computed tomography of head (procedure)'' \<rparr>,
         \<lparr> conceptId = ''408754009'', fsn_term = ''Computed tomography of head without contrast (procedure)'' \<rparr>,
         \<lparr> conceptId = ''77477000'', fsn_term = ''CT (procedure)'' \<rparr>]
       = Some \<lparr> conceptId = ''408754009'', fsn_term = ''Computed tomography of head (procedure)'' \<rparr>"
proof -
  have searched: "search_variants cct_service [''Computed Cranial Tomography'', ''cCT''] =
    (Inr [[\<lparr> conceptId = ''408754009'', fsn_term = ''Computed tomography of head (procedure)'' \<rparr>],
          [\<lparr> conceptId = ''408754009'', fsn_term = ''Computed tomography of head without contrast (procedure)'' \<rparr>,
           \<lparr> conceptId = ''77477000'', fsn_term = ''CT (procedure)'' \<rparr>]],
     [search_request ''Computed Cranial Tomography'', search_request ''cCT''])"
    by (simp add: search_variant_def cct_service_def search_request_def ecl_def ecl_root_def
        is_success_def)
  have returned: "fst (forward_variants cct_service [''Computed Cranial Tomography'', ''cCT''] 100)
     = Inr [\<lparr> conceptId = ''77477000'', fsn_term = ''CT (procedure)'' \<rparr>,
            \<lparr> conceptId = ''408754009'', fsn_term = ''Computed tomography of head (procedure)'' \<rparr>]"
    unfolding forward_variants_def searched by simp
  from forward_no_duplicates_first_wins [OF searched returned] returned
  show ?thesis by simp
qed

section \<open>Properties of the storage sink\<close>

text \<open>
  Claim C8, on the model of the specification's storage sink. Writing \<open>records\<close> to a path
  that holds no file and can be written gives a file of one header row followed by one
  data row per record; writing \<open>later\<close> to the same path then appends one data row per
  record, writes no second header and leaves the earlier rows as they were.
\<close>

theorem store_fresh_then_append:
  assumes "fs path = None" and "writable path"
  shows "\<exists>fs1 fs2.
           store writable fs path field_names records = Inr fs1
         \<and> fs1 path = Some (Header field_names # map Data records)
         \<and> store writable fs1 path field_names later = Inr fs2
         \<and> fs2 path = Some (Header field_names # map Data records @ map Data later)"
  using assms by (simp add: store_def)

text \<open>One medication row written to a fresh file, then a second one.\<close>

theorem store_fresh_then_append_witness:
  "(Map.empty :: files) ''medication_extraction_workflow.csv'' = None
   \<and> all_writable ''medication_extraction_workflow.csv''
   \<and> (\<exists>fs1 fs2.
         store all_writable Map.empty ''medication_extraction_workflow.csv''
           [''drug'', ''dose'', ''frequency''] [[''Aspirin'', ''100mg'', ''daily'']] = Inr fs1
       \<and> fs1 ''medication_extraction_workflow.csv''
           = Some [Header [''drug'', ''dose'', ''frequency''], Data [''Aspirin'', ''100mg'', ''daily'']]
       \<and> store all_writable fs1 ''medication_extraction_workflow.csv''
           [''drug'', ''dose'', ''frequency''] [[''Ibuprofen'', ''400mg'', ''twice daily'']] = Inr fs2
       \<and> fs2 ''medication_extraction_workflow.csv''
           = Some [Header [''drug'', ''dose'', ''frequency''], Data [''Aspirin'', ''100mg'', ''daily''],
                   Data [''Ibuprofen'', ''400mg'', ''twice daily'']])"
  using store_fresh_then_append [where fs = Map.empty and writable = all_writable
      and path = "''medication_extraction_workflow.csv''"
      and field_names = "[''drug'', ''dose'', ''frequency'']"
      and records = "[[''Aspirin'', ''100mg'', ''daily'']]"
      and later = "[[''Ibuprofen'', ''400mg'', ''twice daily'']]"]
  by (simp add: all_writable_def)

end
